theory Spec2Isabelle
  imports Complex_Main
begin

section \<open>Arrays and errors\<close>

text \<open>
  The numerical phonon simulation (\<^verbatim>\<open>phononNum.py\<close>) works on NumPy arrays of floats.
  The model takes the entries to be real numbers, a one-dimensional array to be a list and
  a two-dimensional array of shape \<open>[n, c]\<close> to be \<open>Mat c rows\<close> with \<open>n\<close> rows of length
  \<open>c\<close> each (the column count is kept, since an array with no rows still has one); inside
  a function the same array is the pair \<open>(c, rows)\<close>.
  Every exception the source can raise is a value \<open>Inl e\<close>.
\<close>

datatype error = ValueError | IndexError | IOError

datatype ndarray = Vec "real list" | Mat nat "real list list"

definition bind_error :: "error + 'a \<Rightarrow> ('a \<Rightarrow> error + 'b) \<Rightarrow> error + 'b" where
  "bind_error r f = (case r of Inl e \<Rightarrow> Inl e | Inr a \<Rightarrow> f a)"

text \<open>A loop whose body can raise stops at the first exception.\<close>

fun map_error :: "('a \<Rightarrow> error + 'b) \<Rightarrow> 'a list \<Rightarrow> error + 'b list" where
  "map_error f [] = Inr []"
| "map_error f (x # xs) =
     bind_error (f x) (\<lambda>y. bind_error (map_error f xs) (\<lambda>ys. Inr (y # ys)))"

text \<open>\<^verbatim>\<open>M, L = np.shape(a)\<close>: unpacking the shape of a one-dimensional array raises.\<close>

fun shape2 :: "ndarray \<Rightarrow> error + nat \<times> nat" where
  "shape2 (Vec v) = Inl ValueError"
| "shape2 (Mat c rs) = Inr (length rs, c)"

text \<open>\<^verbatim>\<open>np.size(a, 0)\<close>.\<close>

fun size0 :: "ndarray \<Rightarrow> nat" where
  "size0 (Vec v) = length v"
| "size0 (Mat c rs) = length rs"

subsection \<open>Broadcasting\<close>

text \<open>
  NumPy combines two axes of lengths \<open>a\<close> and \<open>b\<close> when they are equal or one of them is
  1; the axis of length 1 is repeated. Any other pair raises \<^verbatim>\<open>ValueError\<close>.
\<close>

definition compat :: "nat \<Rightarrow> nat \<Rightarrow> bool" where
  "compat a b \<longleftrightarrow> a = b \<or> a = 1 \<or> b = 1"

definition bdim :: "nat \<Rightarrow> nat \<Rightarrow> nat" where
  "bdim a b = (if a = 1 then b else a)"

definition stretch :: "nat \<Rightarrow> 'a list \<Rightarrow> 'a list" where
  "stretch n xs = (if length xs = n then xs else replicate n (hd xs))"

definition bvec :: "(real \<Rightarrow> real \<Rightarrow> real) \<Rightarrow> real list \<Rightarrow> real list \<Rightarrow> error + real list" where
  "bvec f xs ys =
     (if compat (length xs) (length ys)
      then let n = bdim (length xs) (length ys)
           in Inr (map2 f (stretch n xs) (stretch n ys))
      else Inl ValueError)"

text \<open>A one-dimensional array meets a two-dimensional one as a single row.\<close>

fun as2d :: "ndarray \<Rightarrow> nat \<times> real list list" where
  "as2d (Vec v) = (length v, [v])"
| "as2d (Mat c rs) = (c, rs)"

definition bmat :: "(real \<Rightarrow> real \<Rightarrow> real) \<Rightarrow> nat \<times> real list list \<Rightarrow> nat \<times> real list list
    \<Rightarrow> error + nat \<times> real list list" where
  "bmat f A B =
     (case A of (c1, r1) \<Rightarrow> case B of (c2, r2) \<Rightarrow>
        if compat (length r1) (length r2) \<and> compat c1 c2
        then let n = bdim (length r1) (length r2); c = bdim c1 c2
             in Inr (c, map2 (\<lambda>a b. map2 f (stretch c a) (stretch c b))
                          (stretch n r1) (stretch n r2))
        else Inl ValueError)"

fun barr :: "(real \<Rightarrow> real \<Rightarrow> real) \<Rightarrow> ndarray \<Rightarrow> ndarray \<Rightarrow> error + ndarray" where
  "barr f (Vec x) (Vec y) = bind_error (bvec f x y) (\<lambda>z. Inr (Vec z))"
| "barr f A B = bind_error (bmat f (as2d A) (as2d B)) (\<lambda>(c, rs). Inr (Mat c rs))"

text \<open>
  \<^verbatim>\<open>a[sl] = v\<close> for a slice of length \<open>n\<close> of a one-dimensional array: \<open>v\<close> must have
  length \<open>n\<close> or 1. The result is what the slice holds afterwards.
\<close>

definition assign_slice :: "nat \<Rightarrow> real list \<Rightarrow> error + real list" where
  "assign_slice n v =
     (if length v = n \<or> length v = 1 then Inr (stretch n v) else Inl ValueError)"

subsection \<open>Library functions\<close>

text \<open>\<^verbatim>\<open>np.diff(a, n)\<close> on a one-dimensional array: \<open>n\<close> times \<^verbatim>\<open>a[1:] - a[:-1]\<close>;
  for \<open>n = 0\<close> the array itself.\<close>

definition diff1 :: "real list \<Rightarrow> real list" where
  "diff1 a = map2 (-) (tl a) (butlast a)"

definition np_diff :: "nat \<Rightarrow> real list \<Rightarrow> real list" where
  "np_diff n a = (diff1 ^^ n) a"

text \<open>\<^verbatim>\<open>np.sum(a, 1)\<close> of a two-dimensional array.\<close>

definition sum_axis1 :: "nat \<times> real list list \<Rightarrow> real list" where
  "sum_axis1 A = map sum_list (snd A)"

text \<open>\<^verbatim>\<open>np.tile(v, [n, 1])\<close> of a one-dimensional \<open>v\<close>.\<close>

definition tile_rows :: "real list \<Rightarrow> nat \<Rightarrow> ndarray" where
  "tile_rows v n = Mat (length v) (replicate n v)"

text \<open>\<^verbatim>\<open>a.T\<close> of a two-dimensional array.\<close>

definition transpose_rows :: "nat \<Rightarrow> real list list \<Rightarrow> real list list" where
  "transpose_rows c rs = map (\<lambda>j. map (\<lambda>r. r ! j) rs) [0..<c]"

section \<open>The force model\<close>

subsection \<open>\<^verbatim>\<open>PhononNum.calc_force_from_damping\<close>\<close>

text \<open>\<^verbatim>\<open>F = masses*damping*np.diff(v, 0)\<close>. The order of the difference is 0.\<close>

definition calc_force_from_damping :: "real list \<Rightarrow> real list \<Rightarrow> real list \<Rightarrow> error + real list" where
  "calc_force_from_damping v damping masses =
     bind_error (bvec (*) masses damping) (\<lambda>md. bvec (*) md (np_diff 0 v))"

text \<open>
  The damping force as the specification words it:
  \<open>F\<^sub>i = mass\<^sub>i \<cdot> damping\<^sub>i \<cdot> (v\<^sub>i - v\<^sub>i\<^sub>-\<^sub>1)\<close> with \<open>v\<^sub>-\<^sub>1 = 0\<close>.
\<close>

definition dampingForce_spec :: "real list \<Rightarrow> real list \<Rightarrow> real list \<Rightarrow> real list" where
  "dampingForce_spec v damping masses =
     map (\<lambda>i. masses ! i * damping ! i * (v ! i - (if i = 0 then 0 else v ! (i - 1))))
       [0..<length v]"

subsection \<open>\<^verbatim>\<open>PhononNum.calc_force_from_spring\<close>\<close>

text \<open>
  \<^verbatim>\<open>np.size(spring_consts, 1)\<close> raises \<^verbatim>\<open>IndexError\<close> on a one-dimensional array, which
  the source catches: the order is then 1.
\<close>

fun spring_order_of :: "ndarray \<Rightarrow> nat" where
  "spring_order_of (Vec k) = 1"
| "spring_order_of (Mat c rs) = c"

text \<open>\<^verbatim>\<open>np.reshape(spring_consts, [np.size(spring_consts, 0), spring_order])\<close>, as rows.\<close>

fun reshape_rows :: "ndarray \<Rightarrow> real list list" where
  "reshape_rows (Vec k) = map (\<lambda>x. [x]) k"
| "reshape_rows (Mat c rs) = rs"

text \<open>Row \<open>r\<close> of \<^verbatim>\<open>temp\<close> after the loop \<^verbatim>\<open>temp[:, i] = d_X**(i+1)\<close>.\<close>

definition powers :: "nat \<Rightarrow> real \<Rightarrow> real list" where
  "powers spring_order d = map (\<lambda>i. d ^ (i + 1)) [0..<spring_order]"

text \<open>
  \<^verbatim>\<open>temp = np.zeros([n, spring_order])\<close> followed by the assignments
  \<^verbatim>\<open>temp[:, i] = d_X**(i+1)\<close>: each assignment needs \<open>d_X\<close> of length \<open>n\<close> or 1; with
  order 0 no assignment is made.
\<close>

definition fill_powers :: "nat \<Rightarrow> nat \<Rightarrow> real list \<Rightarrow> error + nat \<times> real list list" where
  "fill_powers n spring_order d_X =
     (if spring_order = 0 then Inr (0, replicate n [])
      else bind_error (assign_slice n d_X)
             (\<lambda>d. Inr (spring_order, map (powers spring_order) d)))"

definition calc_force_from_spring :: "real list \<Rightarrow> real list \<Rightarrow> ndarray \<Rightarrow> error + real list" where
  "calc_force_from_spring d_X1 d_X2 spring_consts =
     (let spring_order = spring_order_of spring_consts;
          sc = reshape_rows spring_consts;
          coeff1 = map (map uminus) (butlast sc) @ [replicate spring_order 0];
          coeff2 = replicate spring_order 0 # map (map uminus) (butlast sc)
      in bind_error (fill_powers (length d_X1) spring_order d_X1) (\<lambda>temp1.
         bind_error (fill_powers (length d_X1) spring_order d_X2) (\<lambda>temp2.
         bind_error (bmat (*) (spring_order, coeff2) temp2) (\<lambda>p2.
         bind_error (bmat (*) (spring_order, coeff1) temp1) (\<lambda>p1.
         bvec (-) (sum_axis1 p2) (sum_axis1 p1))))))"

text \<open>
  The spring force as the specification words it, for \<open>L\<close> layers and a matrix \<open>k\<close> of
  \<open>L\<close> rows and \<open>M\<close> columns:
  \<open>F\<^sub>i = - \<Sum>\<^sub>j k\<^sub>i\<^sup>j \<cdot> (leftDiff\<^sub>i)\<^sup>j + \<Sum>\<^sub>j k\<^sub>i\<^sub>+\<^sub>1\<^sup>j \<cdot> (rightDiff\<^sub>i)\<^sup>j\<close>, \<open>j = 1..M\<close>,
  with no left term for layer 0 and no right term for layer \<open>L - 1\<close>.
\<close>

definition poly_force :: "real list \<Rightarrow> real \<Rightarrow> real" where
  "poly_force k d = (\<Sum>j\<leftarrow>[0..<length k]. k ! j * d ^ (j + 1))"

definition springForce_spec :: "real list \<Rightarrow> real list \<Rightarrow> real list list \<Rightarrow> real list" where
  "springForce_spec leftDiff rightDiff k =
     map (\<lambda>i. (if i = 0 then 0 else - poly_force (k ! i) (leftDiff ! i))
              + (if i = length k - 1 then 0 else poly_force (k ! (i + 1)) (rightDiff ! i)))
       [0..<length k]"

text \<open>
  The force on layer \<open>i\<close> of \<open>L\<close> in terms of the two arguments as the source uses them:
  the first (\<open>d_X1\<close>) meets the constants of layer \<open>i\<close> and is dropped for the last
  layer, the second (\<open>d_X2\<close>) meets the constants of layer \<open>i - 1\<close> and is dropped for
  layer 0.
\<close>

definition spring_force_layer :: "real list \<Rightarrow> real list \<Rightarrow> real list list \<Rightarrow> nat \<Rightarrow> real" where
  "spring_force_layer d_X1 d_X2 k i =
     (if i = 0 then 0 else - poly_force (k ! (i - 1)) (d_X2 ! i))
     + (if i = length k - 1 then 0 else poly_force (k ! i) (d_X1 ! i))"

subsection \<open>\<^verbatim>\<open>PhononNum.calc_force_from_heat\<close>\<close>

text \<open>
  \<^verbatim>\<open>M, L = np.shape(sticks)\<close>; \<^verbatim>\<open>F = np.zeros([L, M])\<close>; column \<open>i\<close> of \<open>F\<close> is set
  from row \<open>i\<close> of \<open>sticks\<close>. The result has \<open>L\<close> rows and \<open>M\<close> columns.
\<close>

definition heat_column :: "nat \<Rightarrow> ndarray \<Rightarrow> real list \<Rightarrow> error + real list" where
  "heat_column L spring_consts row =
     bind_error (calc_force_from_spring (take (L - 1) row @ [0]) (0 # take (L - 1) row)
                   spring_consts)
       (\<lambda>F. assign_slice L (map uminus F))"

definition calc_force_from_heat :: "ndarray \<Rightarrow> ndarray \<Rightarrow> error + ndarray" where
  "calc_force_from_heat sticks spring_consts =
     bind_error (shape2 sticks) (\<lambda>(M, L).
     bind_error (map_error (heat_column L spring_consts) (reshape_rows sticks)) (\<lambda>cols.
     Inr (Mat M (map (\<lambda>j. map (\<lambda>c. c ! j) cols) [0..<L]))))"

text \<open>Shape of an array, for stating what a function returns.\<close>

fun shape :: "ndarray \<Rightarrow> nat list" where
  "shape (Vec v) = [length v]"
| "shape (Mat c rs) = [length rs, c]"

text \<open>
  Two arrays of one shape that agree everywhere but, possibly, in the last row (for a
  one-dimensional array: the last entry), and two well-formed two-dimensional arrays of
  one shape that agree everywhere but, possibly, in the last column.
\<close>

fun same_but_last_row :: "ndarray \<Rightarrow> ndarray \<Rightarrow> bool" where
  "same_but_last_row (Vec k) (Vec k') \<longleftrightarrow> length k = length k' \<and> butlast k = butlast k'"
| "same_but_last_row (Mat c rs) (Mat c' rs') \<longleftrightarrow>
     c = c' \<and> length rs = length rs' \<and> butlast rs = butlast rs'"
| "same_but_last_row _ _ \<longleftrightarrow> False"

fun same_but_last_col :: "ndarray \<Rightarrow> ndarray \<Rightarrow> bool" where
  "same_but_last_col (Mat c rs) (Mat c' rs') \<longleftrightarrow>
     c = c' \<and> list_all2 (\<lambda>r r'. length r = c \<and> length r' = c \<and> butlast r = butlast r') rs rs'"
| "same_but_last_col _ _ \<longleftrightarrow> False"

text \<open>\<^verbatim>\<open>a[:, j]\<close> of a two-dimensional array; raises when \<open>j\<close> is not a column.\<close>

fun get_column :: "ndarray \<Rightarrow> nat \<Rightarrow> error + real list" where
  "get_column (Vec v) j = Inl IndexError"
| "get_column (Mat c rs) j = (if j < c then Inr (map (\<lambda>r. r ! j) rs) else Inl IndexError)"

section \<open>The lattice ODE system\<close>

subsection \<open>The drive-signal sampler\<close>

text \<open>
  Modelled from the spec: \<^verbatim>\<open>helpers.finderb\<close> is imported by \<^verbatim>\<open>phononNum.py\<close> and is not
  among the sources. The specification (4.2) has it return the index of the rightmost
  sample time that is at most \<open>t\<close> in the sorted sample times, index 0 when \<open>t\<close> lies
  before the first sample and the last index when it lies after the last, without raising.
  For sorted times that index is the number of samples up to \<open>t\<close>, less one.
\<close>

definition finderb :: "real \<Rightarrow> real list \<Rightarrow> nat" where
  "finderb t vector = length (takeWhile (\<lambda>s. s \<le> t) vector) - 1"

subsection \<open>The progress bar\<close>

text \<open>
  \<^verbatim>\<open>pbar\<close> is a tqdm bar and \<^verbatim>\<open>state\<close> the list \<^verbatim>\<open>[last_t, dt]\<close>; both are \<^verbatim>\<open>None\<close>
  without a progress bar. The model keeps the number of \<^verbatim>\<open>pbar.update(1)\<close> calls, the
  delay last shown by \<^verbatim>\<open>set_description\<close>, and the two entries of \<^verbatim>\<open>state\<close>.
\<close>

record progress =
  updates :: nat
  description :: real
  last_t :: real
  dt :: real

text \<open>
  \<^verbatim>\<open>n = (t - last_t)/dt\<close>, then \<^verbatim>\<open>n >= 1\<close> and \<^verbatim>\<open>n < 0\<close>. The operands are NumPy floats:
  for \<open>dt = 0\<close> the quotient is \<open>+inf\<close>, \<open>-inf\<close> or \<open>nan\<close> by the sign of \<open>t - last_t\<close>, and
  nothing is raised.
\<close>

definition ode_progress :: "real \<Rightarrow> progress \<Rightarrow> progress" where
  "ode_progress t p =
     (let n_ge_1 = (if dt p = 0 then last_t p < t else 1 \<le> (t - last_t p) / dt p);
          n_lt_0 = (if dt p = 0 then t < last_t p else (t - last_t p) / dt p < 0)
      in if n_ge_1 then p\<lparr>updates := updates p + 1, description := t, last_t := t\<rparr>
         else if n_lt_0 then p\<lparr>last_t := t\<rparr>
         else p)"

subsection \<open>\<^verbatim>\<open>PhononNum.ode_func\<close>\<close>

text \<open>
  The function returns \<^verbatim>\<open>X_prime\<close>; the progress bar and \<^verbatim>\<open>state\<close> it mutates are
  returned beside it. \<^verbatim>\<open>X_prime = np.zeros([2*L])\<close> is filled through its two slices of
  length \<open>L\<close>, first \<^verbatim>\<open>X_prime[L:]\<close>, then \<^verbatim>\<open>X_prime[0:L]\<close>. The division by the masses is
  the division of real numbers: the masses of a stack are positive, and for a zero mass
  NumPy yields \<open>inf\<close> or \<open>nan\<close>, which the model does not have.
\<close>

definition ode_func :: "real \<Rightarrow> real list \<Rightarrow> real list \<Rightarrow> ndarray \<Rightarrow> real list \<Rightarrow> ndarray
    \<Rightarrow> real list \<Rightarrow> nat \<Rightarrow> progress option \<Rightarrow> error + real list \<times> progress option" where
  "ode_func t X delays force_from_heat damping spring_consts masses L pbar =
     (let pbar' = map_option (ode_progress t) pbar;
          x = take L X;
          v = drop L X
      in bind_error (calc_force_from_damping v damping masses) (\<lambda>F_damping.
         bind_error (calc_force_from_spring (np_diff 1 x @ [0]) (0 # np_diff 1 x) spring_consts)
           (\<lambda>F_spring.
         bind_error (bvec (+) F_damping F_spring) (\<lambda>F1.
         bind_error (get_column force_from_heat (finderb t delays)) (\<lambda>F_heat.
         bind_error (bvec (+) F1 F_heat) (\<lambda>F2.
         bind_error (bvec (/) F2 masses) (\<lambda>acc.
         bind_error (assign_slice L acc) (\<lambda>X_prime_hi.
         bind_error (assign_slice L v) (\<lambda>X_prime_lo.
         Inr (X_prime_lo @ X_prime_hi, pbar'))))))))))"

text \<open>
  The neighbour differences as the specification words them:
  \<open>leftDiff\<^sub>i = x\<^sub>i - x\<^sub>i\<^sub>-\<^sub>1\<close> and \<open>rightDiff\<^sub>i = x\<^sub>i - x\<^sub>i\<^sub>+\<^sub>1\<close>, zero where the neighbour is
  missing.
\<close>

definition leftDiff_spec :: "real list \<Rightarrow> real list" where
  "leftDiff_spec x = map (\<lambda>i. if i = 0 then 0 else x ! i - x ! (i - 1)) [0..<length x]"

definition rightDiff_spec :: "real list \<Rightarrow> real list" where
  "rightDiff_spec x =
     map (\<lambda>i. if i = length x - 1 then 0 else x ! i - x ! (i + 1)) [0..<length x]"

text \<open>
  The state derivative as the specification words it: the velocities, then the spring force
  on \<open>leftDiff\<close> and \<open>rightDiff\<close> plus the damping force of the velocities plus the
  selected column of the heat force, divided by the masses.
\<close>

definition ode_func_spec :: "real \<Rightarrow> real list \<Rightarrow> real list \<Rightarrow> ndarray \<Rightarrow> real list \<Rightarrow> ndarray
    \<Rightarrow> real list \<Rightarrow> nat \<Rightarrow> error + real list" where
  "ode_func_spec t X delays force_from_heat damping spring_consts masses L =
     (let x = take L X;
          v = drop L X
      in bind_error (calc_force_from_spring (leftDiff_spec x) (rightDiff_spec x) spring_consts)
           (\<lambda>F_spring.
         bind_error (calc_force_from_damping v damping masses) (\<lambda>F_damping.
         bind_error (get_column force_from_heat (finderb t delays)) (\<lambda>F_heat.
         Inr (v @ map (\<lambda>i. (F_spring ! i + F_damping ! i + F_heat ! i) / masses ! i) [0..<L])))))"

section \<open>The strain map\<close>

subsection \<open>The sample and the simulation object\<close>

text \<open>
  \<^verbatim>\<open>self.S\<close> is asked for \<^verbatim>\<open>get_number_of_layers()\<close> and for the property vectors
  \<^verbatim>\<open>_thickness\<close>, \<^verbatim>\<open>_mass_unit_area\<close>, \<^verbatim>\<open>spring_const\<close> and \<^verbatim>\<open>_phonon_damping\<close>; the
  record holds what these calls return.
\<close>

record sample =
  number_of_layers :: nat
  thickness :: "real list"
  mass_unit_area :: "real list"
  spring_const :: ndarray
  phonon_damping :: "real list"

text \<open>\<^verbatim>\<open>self.ode_options\<close>, with \<open>solver_method\<close> for its key \<^verbatim>\<open>'method'\<close>;
  \<open>max_step = None\<close> stands for \<^verbatim>\<open>np.inf\<close>.\<close>

record ode_options =
  solver_method :: string
  first_step :: "real option"
  max_step :: "real option"
  rtol :: real
  atol :: real

definition default_ode_options :: ode_options where
  "default_ode_options =
     \<lparr>solver_method = ''RK23'', first_step = None, max_step = None, rtol = 1 / 1000,
      atol = 1 / 1000000\<rparr>"

text \<open>
  The attributes of a \<^verbatim>\<open>PhononNum\<close> object. The base class \<^verbatim>\<open>Phonon\<close> is not among the
  sources: its methods \<^verbatim>\<open>get_hash\<close>, \<^verbatim>\<open>check_temp_maps\<close> and
  \<^verbatim>\<open>calc_sticks_from_temp_map\<close> are fields, any functions of their arguments. Delays are
  in seconds already.
\<close>

record phonon =
  S :: sample
  force_recalc :: bool
  only_heat :: bool
  progress_bar :: bool
  cache_dir :: string
  ode_options :: ode_options
  get_hash :: "real list \<Rightarrow> ndarray \<Rightarrow> ndarray \<Rightarrow> string"
  check_temp_maps :: "ndarray \<Rightarrow> ndarray \<Rightarrow> real list \<Rightarrow> error + ndarray \<times> ndarray"
  calc_sticks_from_temp_map :: "ndarray \<Rightarrow> ndarray \<Rightarrow> error + ndarray \<times> ndarray list"

text \<open>
  \<^verbatim>\<open>scipy.integrate.solve_ivp\<close> is a parameter: a function of the right-hand side, the
  interval, the initial state, the progress arguments, the times to report and the
  options, that raises or returns \<^verbatim>\<open>sol.y\<close>.
\<close>

type_synonym ode_rhs = "real \<Rightarrow> real list \<Rightarrow> progress option \<Rightarrow> error + real list \<times> progress option"

type_synonym ivp_solver =
  "ode_rhs \<Rightarrow> real \<times> real \<Rightarrow> real list \<Rightarrow> progress option \<Rightarrow> real list \<Rightarrow> ode_options
     \<Rightarrow> error + ndarray"

subsection \<open>Files and messages\<close>

text \<open>
  The files of the cache directory by name, each readable by \<^verbatim>\<open>np.load\<close> as an array or
  not, and the messages shown so far. The elapsed time of the last message is left out.
\<close>

datatype cache_file = Readable ndarray | Unreadable

datatype message = Loaded string | Calculating_expansion | Calculating_dynamics | Elapsed_time

record io =
  files :: "string \<rightharpoonup> cache_file"
  messages :: "message list"

text \<open>
  Modelled from the spec: \<^verbatim>\<open>disp_message\<close> is a method of the absent base class. The
  specification wants what it reports to be observable; the model appends to the messages.
\<close>

definition disp_message :: "message \<Rightarrow> io \<Rightarrow> io" where
  "disp_message m st = st\<lparr>messages := messages st @ [m]\<rparr>"

text \<open>
  Modelled from the spec: \<^verbatim>\<open>save\<close> is a method of the absent base class. The
  specification (4.4, step 4) has the newly computed strain map persisted under the cache
  key. The source hands it the file name, the list \<^verbatim>\<open>[strain_map]\<close> and a name for the
  data; the model stores the array of that list under the file name.
\<close>

definition save :: "string \<Rightarrow> ndarray list \<Rightarrow> string \<Rightarrow> io \<Rightarrow> io" where
  "save full_filename data var_name st =
     st\<lparr>files := fold (\<lambda>a fs. fs(full_filename \<mapsto> Readable a)) data (files st)\<rparr>"

text \<open>\<^verbatim>\<open>path.exists\<close> and \<^verbatim>\<open>np.load\<close> on the files of the model.\<close>

definition path_exists :: "io \<Rightarrow> string \<Rightarrow> bool" where
  "path_exists st name \<longleftrightarrow> files st name \<noteq> None"

definition np_load :: "io \<Rightarrow> string \<Rightarrow> error + ndarray" where
  "np_load st name =
     (case files st name of
        None \<Rightarrow> Inl IOError
      | Some Unreadable \<Rightarrow> Inl IOError
      | Some (Readable a) \<Rightarrow> Inr a)"

subsection \<open>\<^verbatim>\<open>PhononNum.calc_strain_map\<close>\<close>

text \<open>\<^verbatim>\<open>np.zeros_like\<close>, \<^verbatim>\<open>delays[0]\<close>, and the rows of \<^verbatim>\<open>sol.y\<close>.\<close>

fun zeros_like :: "ndarray \<Rightarrow> ndarray" where
  "zeros_like (Vec v) = Vec (map (\<lambda>_. 0) v)"
| "zeros_like (Mat c rs) = Mat c (map (map (\<lambda>_. 0)) rs)"

definition first :: "real list \<Rightarrow> error + real" where
  "first xs = (case xs of [] \<Rightarrow> Inl IndexError | x # _ \<Rightarrow> Inr x)"

fun rows_2d :: "ndarray \<Rightarrow> error + nat \<times> real list list" where
  "rows_2d (Vec v) = Inl IndexError"
| "rows_2d (Mat c rs) = Inr (c, rs)"

text \<open>
  The strain map and the velocities from \<^verbatim>\<open>sol.y\<close>:
  \<^verbatim>\<open>temp = np.diff(sol.y[0:L, :].T, 1, 1)\<close>,
  \<^verbatim>\<open>strain_map = temp/np.tile(thicknesses[:-1], [np.size(temp, 0), 1])\<close>,
  \<^verbatim>\<open>velocities = sol.y[L:, :].T\<close>.
\<close>

definition strain_from_solution :: "nat \<Rightarrow> real list \<Rightarrow> ndarray \<Rightarrow> error + ndarray \<times> ndarray" where
  "strain_from_solution L thicknesses sol_y =
     bind_error (rows_2d sol_y) (\<lambda>(T, y).
       let temp = Mat (length (take L y) - 1) (map (np_diff 1) (transpose_rows T (take L y)))
       in bind_error (barr (/) temp (tile_rows (butlast thicknesses) (size0 temp)))
            (\<lambda>strain_map.
              Inr (strain_map,
                   Mat (length (drop L y)) (transpose_rows T (drop L y)))))"

text \<open>
  \<^verbatim>\<open>pbar = tqdm()\<close>, \<^verbatim>\<open>pbar.set_description(...delays[0]...)\<close> and
  \<^verbatim>\<open>state = [delays[0], abs(delays[-1]-delays[0])/100]\<close> with a progress bar, \<^verbatim>\<open>None\<close>
  without.
\<close>

definition start_progress :: "bool \<Rightarrow> real list \<Rightarrow> real \<Rightarrow> progress option" where
  "start_progress with_bar delays t0 =
     (if with_bar
      then Some \<lparr>updates = 0, description = t0, last_t = t0, dt = \<bar>last delays - t0\<bar> / 100\<rparr>
      else None)"

text \<open>The branch with coherent dynamics, up to the strain map and the velocities.\<close>

definition coherent_dynamics :: "ivp_solver \<Rightarrow> phonon \<Rightarrow> real list \<Rightarrow> ndarray \<Rightarrow> real list
    \<Rightarrow> error + ndarray \<times> ndarray" where
  "coherent_dynamics solve_ivp P delays sticks x0 =
     (let L = number_of_layers (S P);
          masses = mass_unit_area (S P);
          thicknesses = thickness (S P);
          spring_consts = spring_const (S P);
          damping = phonon_damping (S P)
      in bind_error (calc_force_from_heat sticks spring_consts) (\<lambda>force_from_heat.
         bind_error (first delays) (\<lambda>t0.
         bind_error
           (solve_ivp (\<lambda>t X. ode_func t X delays force_from_heat damping spring_consts masses L)
              (t0, last delays) x0 (start_progress (progress_bar P) delays t0) delays
              (ode_options P))
           (strain_from_solution L thicknesses))))"

definition calc_strain_map :: "ivp_solver \<Rightarrow> phonon \<Rightarrow> real list \<Rightarrow> ndarray \<Rightarrow> ndarray \<Rightarrow> io
    \<Rightarrow> (error + ndarray \<times> ndarray list \<times> ndarray) \<times> io" where
  "calc_strain_map solve_ivp P delays temp_map delta_temp_map st =
     (let L = number_of_layers (S P);
          thicknesses = thickness (S P);
          x0 = replicate (2 * L) 0
      in case check_temp_maps P temp_map delta_temp_map delays of
           Inl e \<Rightarrow> (Inl e, st)
         | Inr (temp_map', delta_temp_map') \<Rightarrow>
            (let st1 = disp_message Calculating_expansion st
             in (case calc_sticks_from_temp_map P temp_map' delta_temp_map' of
                   Inl e \<Rightarrow> (Inl e, st1)
                 | Inr (sticks, sticks_sub_systems) \<Rightarrow>
                    (if only_heat P
                     then (case barr (/) sticks (tile_rows thicknesses (size0 sticks)) of
                             Inl e \<Rightarrow> (Inl e, st1)
                           | Inr strain_map \<Rightarrow>
                               (Inr (strain_map, sticks_sub_systems, zeros_like strain_map),
                                disp_message Elapsed_time st1))
                     else (let st2 = disp_message Calculating_dynamics st1
                           in (case coherent_dynamics solve_ivp P delays sticks x0 of
                                 Inl e \<Rightarrow> (Inl e, st2)
                               | Inr (strain_map, velocities) \<Rightarrow>
                                   (Inr (strain_map, sticks_sub_systems, velocities),
                                    disp_message Elapsed_time st2)))))))"

subsection \<open>\<^verbatim>\<open>PhononNum.get_strain_map\<close>\<close>

text \<open>The name of the cache file, \<^verbatim>\<open>path.join\<close> written out.\<close>

definition strain_map_filename :: "phonon \<Rightarrow> real list \<Rightarrow> ndarray \<Rightarrow> ndarray \<Rightarrow> string" where
  "strain_map_filename P delays temp_map delta_temp_map =
     ''strain_map_num_'' @ get_hash P delays temp_map delta_temp_map @ ''.npy''"

definition get_strain_map :: "ivp_solver \<Rightarrow> phonon \<Rightarrow> real list \<Rightarrow> ndarray \<Rightarrow> ndarray \<Rightarrow> io
    \<Rightarrow> (error + ndarray) \<times> io" where
  "get_strain_map solve_ivp P delays temp_map delta_temp_map st =
     (let filename = strain_map_filename P delays temp_map delta_temp_map;
          full_filename = cache_dir P @ ''/'' @ filename
      in if path_exists st full_filename \<and> \<not> force_recalc P
         then (case np_load st full_filename of
                 Inl e \<Rightarrow> (Inl e, st)
               | Inr strain_map \<Rightarrow> (Inr strain_map, disp_message (Loaded filename) st))
         else (case calc_strain_map solve_ivp P delays temp_map delta_temp_map st of
                 (Inl e, st') \<Rightarrow> (Inl e, st')
               | (Inr (strain_map, sticks_sub_systems, velocities), st') \<Rightarrow>
                   (Inr strain_map,
                    save full_filename [strain_map] ''_strain_map_num_'' st')))"

section \<open>Instances for running the model\<close>

text \<open>
  A solver to put in the place of \<^verbatim>\<open>solve_ivp\<close> when the model is run on an example:
  explicit Euler steps from one reported time to the next, starting from the initial state
  at the first. Row \<open>j\<close> of its result is component \<open>j\<close> of the state at the reported
  times, as in \<^verbatim>\<open>sol.y\<close>.
\<close>

fun euler_steps :: "ode_rhs \<Rightarrow> real \<Rightarrow> real list \<Rightarrow> progress option \<Rightarrow> real list
    \<Rightarrow> error + real list list" where
  "euler_steps f t y pbar [] = Inr []"
| "euler_steps f t y pbar (t' # ts) =
     bind_error (f t y pbar) (\<lambda>(dy, pbar').
       let y' = map2 (\<lambda>a b. a + (t' - t) * b) y dy
       in bind_error (euler_steps f t' y' pbar' ts) (\<lambda>ys. Inr (y' # ys)))"

definition euler_ivp :: ivp_solver where
  "euler_ivp f t_span y0 pbar t_eval options =
     bind_error (euler_steps f (fst t_span) y0 pbar (tl t_eval)) (\<lambda>ys.
       Inr (Mat (length t_eval) (transpose_rows (length y0) (y0 # ys))))"

text \<open>
  A stack of two layers, and a simulation on it whose temperature maps pass the check
  unchanged and whose sticks are the temperature changes themselves.
\<close>

definition two_layers :: sample where
  "two_layers =
     \<lparr>number_of_layers = 2, thickness = [2, 4], mass_unit_area = [1, 2],
      spring_const = Vec [1, 3], phonon_damping = [0, 0]\<rparr>"

definition demo_phonon :: "bool \<Rightarrow> phonon" where
  "demo_phonon heat_only =
     \<lparr>S = two_layers, force_recalc = False, only_heat = heat_only, progress_bar = False,
      cache_dir = ''cache'', ode_options = default_ode_options,
      get_hash = (\<lambda>delays temp_map delta_temp_map. ''0''),
      check_temp_maps = (\<lambda>temp_map delta_temp_map delays. Inr (temp_map, delta_temp_map)),
      calc_sticks_from_temp_map = (\<lambda>temp_map delta_temp_map. Inr (delta_temp_map, []))\<rparr>"

definition no_files :: io where
  "no_files = \<lparr>files = Map.empty, messages = []\<rparr>"

text \<open>A cache directory whose file for the simulations above cannot be read.\<close>

definition unreadable_cache :: io where
  "unreadable_cache =
     \<lparr>files = [''cache/strain_map_num_0.npy'' \<mapsto> Unreadable], messages = []\<rparr>"

text \<open>A solver that raises whenever it is called.\<close>

definition failing_ivp :: ivp_solver where
  "failing_ivp f t_span y0 pbar t_eval options = Inl ValueError"

section \<open>Broadcasting on matching shapes\<close>

lemma bvec_same_length:
  "length xs = length ys \<Longrightarrow> bvec f xs ys = Inr (map2 f xs ys)"
  by (simp add: bvec_def compat_def bdim_def stretch_def)

lemma stretch_same: "length xs = n \<Longrightarrow> stretch n xs = xs"
  by (simp add: stretch_def)

lemma assign_slice_same: "length v = n \<Longrightarrow> assign_slice n v = Inr v"
  by (simp add: assign_slice_def stretch_def)

lemma fill_powers_same:
  "length d = n \<Longrightarrow> fill_powers n M d = Inr (M, map (powers M) d)"
  by (auto simp: fill_powers_def assign_slice_same bind_error_def powers_def
      intro: nth_equalityI)

lemma bmat_same:
  assumes "length r1 = length r2"
    and "\<forall>a\<in>set r1. length a = c" and "\<forall>b\<in>set r2. length b = c"
  shows "bmat f (c, r1) (c, r2) = Inr (c, map2 (map2 f) r1 r2)"
proof -
  have "map2 (\<lambda>a b. map2 f (stretch c a) (stretch c b)) r1 r2 = map2 (map2 f) r1 r2"
    using assms by (intro nth_equalityI) (simp_all add: stretch_same)
  then show ?thesis
    using assms(1) by (simp add: bmat_def compat_def bdim_def stretch_same)
qed

section \<open>Properties of the damping force\<close>

lemma calc_force_from_damping_eq:
  assumes "length damping = length v" and "length masses = length v"
  shows "calc_force_from_damping v damping masses =
           Inr (map (\<lambda>i. masses ! i * damping ! i * v ! i) [0..<length v])"
proof -
  have "map2 (*) (map2 (*) masses damping) v
          = map (\<lambda>i. masses ! i * damping ! i * v ! i) [0..<length v]"
    using assms by (intro nth_equalityI) simp_all
  then show ?thesis
    using assms
    by (simp add: calc_force_from_damping_def bind_error_def bvec_same_length np_diff_def)
qed

text \<open>
  C2. The specification gives the damping force of layer \<open>i\<close> as
  \<open>mass\<^sub>i \<cdot> damping\<^sub>i \<cdot> (v\<^sub>i - v\<^sub>i\<^sub>-\<^sub>1)\<close> with \<open>v\<^sub>-\<^sub>1 = 0\<close>, and the docstring of
  \<^verbatim>\<open>calc_force_from_damping\<close> says the force follows the velocity difference
  \<open>v\<^sub>i - v\<^sub>i\<^sub>-\<^sub>1\<close>. The source takes \<^verbatim>\<open>np.diff(v, 0)\<close>, the difference of order 0, which is
  \<open>v\<close> itself: for the velocities \<open>[1, 2]\<close> with unit masses and damping the source
  returns \<open>[1, 2]\<close>, the stated formula gives \<open>[1, 1]\<close>.
\<close>

theorem C2_damping_ignores_neighbour:
  "calc_force_from_damping [1, 2] [1, 1] [1, 1] = Inr [1, 2]
     \<and> dampingForce_spec [1, 2] [1, 1] [1, 1] = [1, 1]"
  by (simp add: calc_force_from_damping_def bind_error_def bvec_def compat_def bdim_def
      stretch_def np_diff_def dampingForce_spec_def upt_rec)

section \<open>Properties of the spring force\<close>

lemma sum_powers_poly:
  "sum_list (map2 (*) r (powers (length r) d)) = poly_force r d"
proof -
  have "map2 (*) r (powers (length r) d) = map (\<lambda>j. r ! j * d ^ (j + 1)) [0..<length r]"
    by (intro nth_equalityI) (simp_all add: powers_def)
  then show ?thesis by (simp add: poly_force_def)
qed

lemma sum_powers_neg:
  "sum_list (map2 (*) (map uminus r) (powers (length r) d)) = - poly_force r d"
proof -
  have "map2 (*) (map uminus r) (powers (length r) d)
          = map (uminus \<circ> (\<lambda>j. r ! j * d ^ (j + 1))) [0..<length r]"
    by (intro nth_equalityI) (simp_all add: powers_def)
  then show ?thesis by (simp only: poly_force_def uminus_sum_list_map)
qed

lemma sum_powers_zero:
  "sum_list (map2 (*) (replicate M 0) (powers M d)) = 0"
proof -
  have "map2 (*) (replicate M 0) (powers M d) = replicate M 0"
    by (intro nth_equalityI) (simp_all add: powers_def)
  then show ?thesis by (simp add: sum_list_replicate)
qed

lemma calc_force_from_spring_rows:
  assumes d1: "length d_X1 = length k" and d2: "length d_X2 = length k"
    and k: "k \<noteq> []" and wf: "\<forall>r\<in>set k. length r = M"
  shows "calc_force_from_spring d_X1 d_X2 (Mat M k)
           = Inr (map (spring_force_layer d_X1 d_X2 k) [0..<length k])"
proof -
  define L where "L = length k"
  define coeff1 where "coeff1 = map (map uminus) (butlast k) @ [replicate M 0]"
  define coeff2 where "coeff2 = replicate M 0 # map (map uminus) (butlast k)"
  have Lpos: "0 < L" using k by (simp add: L_def)
  have len1: "length coeff1 = L" and len2: "length coeff2 = L"
    using Lpos by (simp_all add: coeff1_def coeff2_def L_def)
  have wfb: "\<forall>r\<in>set (butlast k). length r = M"
    using wf by (auto dest: in_set_butlastD)
  have wf1: "\<forall>a\<in>set coeff1. length a = M" and wf2: "\<forall>a\<in>set coeff2. length a = M"
    using wfb by (auto simp: coeff1_def coeff2_def)
  have wfp: "\<forall>b\<in>set (map (powers M) d). length b = M" for d
    by (simp add: powers_def)
  have p2: "bmat (*) (M, coeff2) (M, map (powers M) d_X2)
              = Inr (M, map2 (map2 (*)) coeff2 (map (powers M) d_X2))"
    using len2 d2 wf2 wfp by (intro bmat_same) (simp_all add: L_def)
  have p1: "bmat (*) (M, coeff1) (M, map (powers M) d_X1)
              = Inr (M, map2 (map2 (*)) coeff1 (map (powers M) d_X1))"
    using len1 d1 wf1 wfp by (intro bmat_same) (simp_all add: L_def)
  have c2: "coeff2 ! i = (if i = 0 then replicate M 0 else map uminus (k ! (i - 1)))"
    if "i < L" for i
    using that by (cases i) (simp_all add: coeff2_def L_def nth_butlast)
  have c1: "coeff1 ! i = (if i = L - 1 then replicate M 0 else map uminus (k ! i))"
    if "i < L" for i
    using that by (auto simp: coeff1_def L_def nth_append nth_butlast)
  have kl: "length (k ! i) = M" if "i < L" for i
    using that wf by (simp add: L_def)
  have s2: "sum_list (map2 (*) (coeff2 ! i) (powers M (d_X2 ! i)))
              = (if i = 0 then 0 else - poly_force (k ! (i - 1)) (d_X2 ! i))"
    if "i < L" for i
    using that c2[OF that] kl[of "i - 1"] sum_powers_neg[of "k ! (i - 1)" "d_X2 ! i"]
    by (simp add: sum_powers_zero)
  have s1: "sum_list (map2 (*) (coeff1 ! i) (powers M (d_X1 ! i)))
              = (if i = L - 1 then 0 else - poly_force (k ! i) (d_X1 ! i))"
    if "i < L" for i
    using that c1[OF that] kl[OF that] sum_powers_neg[of "k ! i" "d_X1 ! i"]
    by (simp add: sum_powers_zero)
  have "map2 (-) (map sum_list (map2 (map2 (*)) coeff2 (map (powers M) d_X2)))
                 (map sum_list (map2 (map2 (*)) coeff1 (map (powers M) d_X1)))
          = map (spring_force_layer d_X1 d_X2 k) [0..<L]"
    using len1 len2 d1 d2 s1 s2
    by (intro nth_equalityI) (simp_all add: L_def spring_force_layer_def)
  then show ?thesis
    using d1 d2 len1 len2 p1 p2
    by (simp add: calc_force_from_spring_def Let_def fill_powers_same bind_error_def
        sum_axis1_def bvec_same_length coeff1_def coeff2_def L_def)
qed

lemma calc_force_from_spring_Vec:
  "calc_force_from_spring d_X1 d_X2 (Vec k)
     = calc_force_from_spring d_X1 d_X2 (Mat 1 (map (\<lambda>x. [x]) k))"
  by (simp add: calc_force_from_spring_def)

text \<open>
  C3, as stated. The specification pairs the constants of layer \<open>i\<close> with the left
  difference and those of layer \<open>i + 1\<close> with the right difference. The source pairs its
  first argument with the constants of layer \<open>i\<close> and its second with those of layer
  \<open>i - 1\<close>: with constants \<open>1\<close> and \<open>5\<close> for two layers and all differences 1, the
  source returns \<open>[1, -1]\<close>, the stated formula \<open>[5, -5]\<close>.
\<close>

theorem C3_spring_counterexample:
  "calc_force_from_spring [1, 1] [1, 1] (Mat 1 [[1], [5]]) = Inr [1, - 1]
     \<and> springForce_spec [1, 1] [1, 1] [[1], [5]] = [5, - 5]"
  using calc_force_from_spring_rows [of "[1, 1]" "[[1], [5]]" "[1, 1]" 1]
  by (simp add: spring_force_layer_def springForce_spec_def poly_force_def upt_rec)

text \<open>
  C3, amended. For two difference vectors of length \<open>L \<ge> 1\<close> and a matrix of constants
  with \<open>L\<close> rows and \<open>M\<close> columns, \<^verbatim>\<open>calc_force_from_spring\<close> returns for layer \<open>i\<close>
  \<open>- \<Sum>\<^sub>j k\<^sub>i\<^sub>-\<^sub>1\<^sup>j \<cdot> (d_X2\<^sub>i)\<^sup>j + \<Sum>\<^sub>j k\<^sub>i\<^sup>j \<cdot> (d_X1\<^sub>i)\<^sup>j\<close>, \<open>j = 1..M\<close>, where the first
  sum is absent for layer 0 and the second for layer \<open>L - 1\<close>: the chain is open, and the
  constants of the last layer are not used.
\<close>

theorem C3_spring_force_per_layer:
  assumes "length d_X1 = L" and "length d_X2 = L" and "length k = L" and "1 \<le> L"
    and "list_all (\<lambda>r. length r = M) k"
  shows "calc_force_from_spring d_X1 d_X2 (Mat M k)
           = Inr (map (\<lambda>i. (if i = 0 then 0 else - poly_force (k ! (i - 1)) (d_X2 ! i))
                         + (if i = L - 1 then 0 else poly_force (k ! i) (d_X1 ! i)))
                    [0..<L])"
proof -
  have "k \<noteq> []" using assms by auto
  moreover have "\<forall>r\<in>set k. length r = M" using assms by (simp add: list_all_iff)
  ultimately have "calc_force_from_spring d_X1 d_X2 (Mat M k)
                     = Inr (map (spring_force_layer d_X1 d_X2 k) [0..<length k])"
    using assms by (intro calc_force_from_spring_rows) simp_all
  then show ?thesis
    using assms by (simp add: spring_force_layer_def)
qed

theorem C3_spring_force_per_layer_witness:
  "calc_force_from_spring [2, 3, 0] [0, 5, 7] (Mat 2 [[1, 2], [3, 4], [100, 200]])
     = Inr [10, - 10, - 217]"
  using C3_spring_force_per_layer
    [of "[2, 3, 0]" 3 "[0, 5, 7]" "[[1, 2], [3, 4], [100, 200]]" 2]
  by (simp add: poly_force_def upt_rec)

text \<open>
  C9, as stated. A single layer with unit mass and unit damping that moves with velocity 1:
  \<^verbatim>\<open>calc_force_from_damping\<close> returns the force \<open>[1]\<close>, not zero. The damping formula of
  the specification, \<open>mass\<^sub>0 \<cdot> damping\<^sub>0 \<cdot> (v\<^sub>0 - v\<^sub>-\<^sub>1)\<close> with \<open>v\<^sub>-\<^sub>1 = 0\<close>, gives the same
  \<open>[1]\<close>.
\<close>

theorem C9_single_layer_damping_counterexample:
  "calc_force_from_damping [1] [1] [1] = Inr [1]
     \<and> dampingForce_spec [1] [1] [1] = [1]"
  by (simp add: calc_force_from_damping_def bind_error_def bvec_def compat_def bdim_def
      stretch_def np_diff_def dampingForce_spec_def)

text \<open>
  C9, amended. On a single layer the spring force is zero for every pair of differences and
  every constant, given as one number or as a row of any order; the damping force is
  \<open>mass \<cdot> damping \<cdot> v\<close>, which is the damping formula of the specification on one layer;
  and no call raises.
\<close>

theorem C9_single_layer:
  "calc_force_from_spring [a] [b] (Vec [k]) = Inr [0]
     \<and> calc_force_from_spring [a] [b] (Mat (length r) [r]) = Inr [0]
     \<and> calc_force_from_damping [v] [g] [m] = Inr [m * g * v]
     \<and> calc_force_from_damping [v] [g] [m] = Inr (dampingForce_spec [v] [g] [m])"
  using calc_force_from_spring_rows [of "[a]" "[[k]]" "[b]" 1]
    calc_force_from_spring_rows [of "[a]" "[r]" "[b]" "length r"]
    calc_force_from_damping_eq [of "[g]" "[v]" "[m]"]
  by (simp add: calc_force_from_spring_Vec spring_force_layer_def dampingForce_spec_def)

section \<open>The deepest layer\<close>

lemma calc_force_from_spring_last_row:
  assumes "same_but_last_row K K'"
  shows "calc_force_from_spring d_X1 d_X2 K = calc_force_from_spring d_X1 d_X2 K'"
proof (cases K)
  case (Vec k)
  then obtain k' where "K' = Vec k'" using assms by (cases K') simp_all
  then show ?thesis
    using assms Vec by (simp add: calc_force_from_spring_def flip: map_butlast)
next
  case (Mat c rs)
  then obtain rs' where "K' = Mat c rs'" using assms by (cases K') simp_all
  then show ?thesis
    using assms Mat by (simp add: calc_force_from_spring_def)
qed

lemma map_error_cong2:
  "list_all2 (\<lambda>x y. f x = g y) xs ys \<Longrightarrow> map_error f xs = map_error g ys"
  by (induction xs ys rule: list_all2_induct) simp_all

lemma heat_column_last:
  assumes "same_but_last_row K K'"
    and "length r = c" and "length r' = c" and "butlast r = butlast r'"
  shows "heat_column c K r = heat_column c K' r'"
proof -
  have "take (c - 1) r = butlast r" "take (c - 1) r' = butlast r'"
    using assms(2,3) by (simp_all add: butlast_conv_take)
  then show ?thesis
    unfolding heat_column_def
    using assms(4) calc_force_from_spring_last_row [OF assms(1)] by simp
qed

lemma calc_force_from_heat_last:
  assumes K: "same_but_last_row K K'" and C: "same_but_last_col sticks sticks'"
  shows "calc_force_from_heat sticks K = calc_force_from_heat sticks' K'"
proof -
  obtain c rs rs' where SS: "sticks = Mat c rs" "sticks' = Mat c rs'"
    using C by (cases sticks; cases sticks') simp_all
  have rows: "list_all2 (\<lambda>r r'. length r = c \<and> length r' = c \<and> butlast r = butlast r') rs rs'"
    using C SS by simp
  have "list_all2 (\<lambda>r r'. heat_column c K r = heat_column c K' r') rs rs'"
    using rows
    by (rule list_all2_mono) (simp add: heat_column_last [OF K])
  then have "map_error (heat_column c K) rs = map_error (heat_column c K') rs'"
    by (rule map_error_cong2)
  moreover have "length rs = length rs'"
    using rows by (rule list_all2_lengthD)
  ultimately show ?thesis
    by (simp add: calc_force_from_heat_def SS bind_error_def)
qed

text \<open>
  C10. When two spring-constant arrays differ only in their last row,
  \<^verbatim>\<open>calc_force_from_spring\<close> returns the same for both, whatever the differences; and
  \<^verbatim>\<open>calc_force_from_heat\<close> returns the same when, besides, the sticks differ only in
  their last column. Errors included: the two calls raise together.
\<close>

theorem C10_last_layer_unused:
  assumes "same_but_last_row K K'" and "same_but_last_col sticks sticks'"
  shows "calc_force_from_spring d_X1 d_X2 K = calc_force_from_spring d_X1 d_X2 K'
           \<and> calc_force_from_heat sticks K = calc_force_from_heat sticks K'
           \<and> calc_force_from_heat sticks K = calc_force_from_heat sticks' K'"
proof -
  have "same_but_last_col sticks sticks"
    using assms(2) by (cases sticks; cases sticks') (auto simp: list_all2_conv_all_nth)
  then have "calc_force_from_heat sticks K = calc_force_from_heat sticks K'"
    using assms(1) by (rule calc_force_from_heat_last [rotated])
  moreover have "calc_force_from_heat sticks K = calc_force_from_heat sticks' K'"
    using assms by (rule calc_force_from_heat_last)
  moreover have "calc_force_from_spring d_X1 d_X2 K = calc_force_from_spring d_X1 d_X2 K'"
    using assms(1) by (rule calc_force_from_spring_last_row)
  ultimately show ?thesis by simp
qed

theorem C10_last_layer_unused_witness:
  "calc_force_from_spring [2, 3, 0] [0, 5, 7] (Mat 2 [[1, 2], [3, 4], [100, 200]])
     = calc_force_from_spring [2, 3, 0] [0, 5, 7] (Mat 2 [[1, 2], [3, 4], [- 1, 0]])
   \<and> calc_force_from_heat (Mat 3 [[1, 2, 9], [3, 4, 9]]) (Mat 2 [[1, 2], [3, 4], [100, 200]])
     = calc_force_from_heat (Mat 3 [[1, 2, 9], [3, 4, 9]]) (Mat 2 [[1, 2], [3, 4], [- 1, 0]])
   \<and> calc_force_from_heat (Mat 3 [[1, 2, 9], [3, 4, 9]]) (Mat 2 [[1, 2], [3, 4], [100, 200]])
     = calc_force_from_heat (Mat 3 [[1, 2, 8], [3, 4, 7]]) (Mat 2 [[1, 2], [3, 4], [- 1, 0]])"
proof -
  have K: "same_but_last_row (Mat 2 [[1, 2], [3, 4], [100, 200]]) (Mat 2 [[1, 2], [3, 4], [- 1, 0]])"
    by simp
  have S: "same_but_last_col (Mat 3 [[1, 2, 9], [3, 4, 9]]) (Mat 3 [[1, 2, 8], [3, 4, 7]])"
    by simp
  show ?thesis
    by (rule C10_last_layer_unused [OF K S])
qed

section \<open>Properties of the heat force\<close>

lemma map_error_all:
  "\<forall>x\<in>set xs. f x = Inr (g x) \<Longrightarrow> map_error f xs = Inr (map g xs)"
  by (induction xs) (simp_all add: bind_error_def)

lemma heat_column_rows:
  assumes "length row = length k" and "k \<noteq> []" and "\<forall>r\<in>set k. length r = M"
  shows "calc_force_from_spring (take (length k - 1) row @ [0]) (0 # take (length k - 1) row)
             (Mat M k)
           = Inr (map (spring_force_layer (take (length k - 1) row @ [0])
                         (0 # take (length k - 1) row) k) [0..<length k])"
    and "heat_column (length k) (Mat M k) row
           = Inr (map (\<lambda>i. - spring_force_layer (take (length k - 1) row @ [0])
                                (0 # take (length k - 1) row) k i) [0..<length k])"
proof -
  have "0 < length k" using assms(2) by simp
  then have len: "length (take (length k - 1) row @ [0]) = length k"
    "length (0 # take (length k - 1) row) = length k"
    using assms(1) by simp_all
  show 1: "calc_force_from_spring (take (length k - 1) row @ [0]) (0 # take (length k - 1) row)
             (Mat M k)
           = Inr (map (spring_force_layer (take (length k - 1) row @ [0])
                         (0 # take (length k - 1) row) k) [0..<length k])"
    using len assms(2,3) by (rule calc_force_from_spring_rows)
  show "heat_column (length k) (Mat M k) row
           = Inr (map (\<lambda>i. - spring_force_layer (take (length k - 1) row @ [0])
                                (0 # take (length k - 1) row) k i) [0..<length k])"
    unfolding heat_column_def 1
    by (simp add: bind_error_def assign_slice_same comp_def)
qed

text \<open>
  C4, amended. For sticks of shape \<open>[T, L]\<close>, \<open>L \<ge> 1\<close>, and spring constants of \<open>L\<close> rows,
  \<^verbatim>\<open>calc_force_from_heat\<close> makes one call to \<^verbatim>\<open>calc_force_from_spring\<close> per time sample,
  on the first \<open>L - 1\<close> sticks of that sample padded with a zero behind and with a zero in
  front; all \<open>T\<close> calls return, and their negated results are the \<^emph>\<open>columns\<close> of the
  matrix returned, which has shape \<open>[L, T]\<close>.
\<close>

theorem C4_heat_force_columns:
  assumes "1 \<le> L" and "list_all (\<lambda>r. length r = L) sticks"
    and "length k = L" and "list_all (\<lambda>r. length r = M) k"
  shows "\<exists>cols. map_error (\<lambda>row. calc_force_from_spring (take (L - 1) row @ [0])
                                  (0 # take (L - 1) row) (Mat M k)) sticks = Inr cols
           \<and> calc_force_from_heat (Mat L sticks) (Mat M k)
               = Inr (Mat (length sticks) (map (\<lambda>i. map (\<lambda>c. - (c ! i)) cols) [0..<L]))
           \<and> shape (Mat (length sticks) (map (\<lambda>i. map (\<lambda>c. - (c ! i)) cols) [0..<L]))
               = [L, length sticks]"
proof -
  define g where "g row = map (spring_force_layer (take (L - 1) row @ [0])
                         (0 # take (L - 1) row) k) [0..<L]" for row
  have k: "k \<noteq> []" "\<forall>r\<in>set k. length r = M"
    using assms by (auto simp: list_all_iff)
  have rows: "\<forall>row\<in>set sticks. length row = length k"
    using assms by (simp add: list_all_iff)
  have "map_error (\<lambda>row. calc_force_from_spring (take (L - 1) row @ [0])
                                  (0 # take (L - 1) row) (Mat M k)) sticks = Inr (map g sticks)"
    using rows heat_column_rows(1) [OF _ k] assms(3)
    by (intro map_error_all) (simp add: g_def)
  moreover have "map_error (heat_column L (Mat M k)) sticks
                   = Inr (map (\<lambda>row. map (\<lambda>i. - g row ! i) [0..<L]) sticks)"
    using rows heat_column_rows(2) [OF _ k] assms(3)
    by (intro map_error_all) (simp add: g_def)
  moreover have "map (\<lambda>j. map (\<lambda>c. c ! j) (map (\<lambda>row. map (\<lambda>i. - g row ! i) [0..<L]) sticks)) [0..<L]
                   = map (\<lambda>i. map (\<lambda>c. - (c ! i)) (map g sticks)) [0..<L]"
    by (simp add: comp_def)
  ultimately show ?thesis
    by (simp add: calc_force_from_heat_def bind_error_def)
qed

lemmas force_defs = calc_force_from_heat_def heat_column_def calc_force_from_spring_def
  fill_powers_def assign_slice_def bmat_def bvec_def compat_def bdim_def stretch_def
  sum_axis1_def powers_def bind_error_def

text \<open>
  C4, as stated. For one time sample and two layers the sticks have shape \<open>[1, 2]\<close> and
  the force matrix has shape \<open>[2, 1]\<close>, not \<open>[1, 2]\<close>.
\<close>

theorem C4_heat_shape_counterexample:
  "calc_force_from_heat (Mat 2 [[1, 1]]) (Vec [1, 1]) = Inr (Mat 1 [[- 1], [1]])
     \<and> shape (Mat 1 [[- 1], [1]]) = [2, 1] \<and> shape (Mat 2 [[1, 1]]) = [1, 2]"
  by (simp add: force_defs upt_rec)

theorem C4_heat_force_columns_witness:
  "calc_force_from_heat (Mat 3 [[1, 2, 9], [3, 4, 9]]) (Mat 1 [[1], [10], [100]])
     = Inr (Mat 2 [[- 1, - 3], [- 19, - 37], [20, 40]])"
proof -
  have "map_error (\<lambda>row. calc_force_from_spring (take (3 - 1) row @ [0])
                                  (0 # take (3 - 1) row) (Mat 1 [[1], [10], [100]])) [[1, 2, 9], [3, 4, 9]]
         = Inr [[1, 19, - 20], [3, 37, - 40]]"
    by (simp add: force_defs upt_rec)
  then show ?thesis
    using C4_heat_force_columns [of 3 "[[1, 2, 9], [3, 4, 9]]" "[[1], [10], [100]]" 1]
    by (simp add: upt_rec)
qed

section \<open>Properties of the state derivative\<close>

lemma length_diff1: "length (diff1 a) = length a - 1"
  by (simp add: diff1_def)

lemma nth_diff1: "i + 1 < length a \<Longrightarrow> diff1 a ! i = a ! (i + 1) - a ! i"
  by (simp add: diff1_def nth_tl nth_butlast)

lemma diff_pad_back:
  assumes "length x = L" and "1 \<le> L"
  shows "np_diff 1 x @ [0] = map (\<lambda>i. if i = L - 1 then 0 else x ! (i + 1) - x ! i) [0..<L]"
  using assms
  by (intro nth_equalityI) (auto simp: np_diff_def length_diff1 nth_append nth_diff1)

lemma diff_pad_front:
  assumes "length x = L" and "1 \<le> L"
  shows "0 # np_diff 1 x = map (\<lambda>i. if i = 0 then 0 else x ! i - x ! (i - 1)) [0..<L]"
  using assms
  by (intro nth_equalityI) (auto simp: np_diff_def length_diff1 nth_Cons' nth_diff1)

text \<open>
  C1, as stated. Two layers at rest, the second displaced by 1, constants 1 in first and
  second order, unit masses, no damping and no heat force. The source returns the
  accelerations \<open>[2, -2]\<close>: the spring is stretched by \<open>x\<^sub>1 - x\<^sub>0 = 1\<close> and pulls the layers
  together with equal and opposite forces. On \<open>leftDiff\<^sub>i = x\<^sub>i - x\<^sub>i\<^sub>-\<^sub>1\<close> and
  \<open>rightDiff\<^sub>i = x\<^sub>i - x\<^sub>i\<^sub>+\<^sub>1\<close> the spring force is \<open>[0, 0]\<close> with the arguments in the order
  of the specification, \<open>[0, -2]\<close> in the other order, \<open>[0, -2]\<close> by the formula of the
  specification, and \<open>[0, -2]\<close> as the negated polynomial of each difference.
\<close>

theorem C1_ode_func_counterexample:
  "ode_func 0 [0, 1, 0, 0] [0] (Mat 1 [[0], [0]]) [0, 0] (Mat 2 [[1, 1], [1, 1]]) [1, 1] 2 None
     = Inr ([0, 0, 2, - 2], None)
   \<and> ode_func_spec 0 [0, 1, 0, 0] [0] (Mat 1 [[0], [0]]) [0, 0] (Mat 2 [[1, 1], [1, 1]]) [1, 1] 2
     = Inr [0, 0, 0, 0]
   \<and> calc_force_from_spring (rightDiff_spec [0, 1]) (leftDiff_spec [0, 1])
       (Mat 2 [[1, 1], [1, 1]])
     = Inr [0, - 2]
   \<and> springForce_spec (leftDiff_spec [0, 1]) (rightDiff_spec [0, 1]) [[1, 1], [1, 1]]
     = [0, - 2]
   \<and> [- poly_force [1, 1] (rightDiff_spec [0, 1] ! 0),
      - poly_force [1, 1] (leftDiff_spec [0, 1] ! 1)] = [0, - 2]"
  by (simp add: ode_func_def ode_func_spec_def force_defs calc_force_from_damping_def
      np_diff_def diff1_def finderb_def leftDiff_spec_def rightDiff_spec_def
      springForce_spec_def poly_force_def upt_rec eval_nat_numeral)

text \<open>
  C1, amended. For \<open>L \<ge> 1\<close> layers, a state \<open>X\<close> of length \<open>2L\<close>, damping and masses of
  length \<open>L\<close>, spring constants of \<open>L\<close> rows and a heat force of \<open>L\<close> rows in which the
  sampler selects a column, \<^verbatim>\<open>ode_func\<close> returns the last \<open>L\<close> entries of \<open>X\<close> followed by,
  for each layer, the sum of the damping force of these velocities, the spring force and
  the selected heat force, divided by the mass of the layer. The spring force is taken on
  \<open>x\<^sub>i\<^sub>+\<^sub>1 - x\<^sub>i\<close> (zero for the last layer) as first and \<open>x\<^sub>i - x\<^sub>i\<^sub>-\<^sub>1\<close> (zero for layer 0)
  as second argument. Both force calls return. The progress bar does not enter the result.
\<close>

theorem C1_ode_func_derivative:
  assumes "1 \<le> L" and "length X = 2 * L"
    and "length damping = L" and "length masses = L"
    and "length k = L" and "list_all (\<lambda>r. length r = M) k"
    and "length H = L" and "finderb t delays < T"
  shows "\<exists>F_damping F_spring.
           calc_force_from_damping (drop L X) damping masses = Inr F_damping
         \<and> calc_force_from_spring
               (map (\<lambda>i. if i = L - 1 then 0 else X ! (i + 1) - X ! i) [0..<L])
               (map (\<lambda>i. if i = 0 then 0 else X ! i - X ! (i - 1)) [0..<L])
               (Mat M k) = Inr F_spring
         \<and> ode_func t X delays (Mat T H) damping (Mat M k) masses L pbar
             = Inr (drop L X
                    @ map (\<lambda>i. (F_damping ! i + F_spring ! i + H ! i ! finderb t delays)
                                 / masses ! i) [0..<L],
                    map_option (ode_progress t) pbar)"
proof -
  define x where "x = take L X"
  define v where "v = drop L X"
  define d1 where "d1 = map (\<lambda>i. if i = L - 1 then 0 else X ! (i + 1) - X ! i) [0..<L]"
  define d2 where "d2 = map (\<lambda>i. if i = 0 then 0 else X ! i - X ! (i - 1)) [0..<L]"
  define Fd where "Fd = map (\<lambda>i. masses ! i * damping ! i * v ! i) [0..<L]"
  define Fs where "Fs = map (spring_force_layer d1 d2 k) [0..<L]"
  define Fh where "Fh = map (\<lambda>r. r ! finderb t delays) H"
  have lx: "length x = L" and lv: "length v = L"
    using assms(2) by (simp_all add: x_def v_def)
  have "np_diff 1 x @ [0] = map (\<lambda>i. if i = L - 1 then 0 else x ! (i + 1) - x ! i) [0..<L]"
    using lx assms(1) by (rule diff_pad_back)
  also have "\<dots> = d1"
    unfolding d1_def using assms(1) by (intro nth_equalityI) (auto simp: x_def)
  finally have a1: "np_diff 1 x @ [0] = d1" .
  have "0 # np_diff 1 x = map (\<lambda>i. if i = 0 then 0 else x ! i - x ! (i - 1)) [0..<L]"
    using lx assms(1) by (rule diff_pad_front)
  also have "\<dots> = d2"
    unfolding d2_def by (intro nth_equalityI) (auto simp: x_def)
  finally have a2: "0 # np_diff 1 x = d2" .
  have damp: "calc_force_from_damping v damping masses = Inr Fd"
    using assms(3,4) lv calc_force_from_damping_eq [of damping v masses] by (simp add: Fd_def)
  have "k \<noteq> []" "\<forall>r\<in>set k. length r = M"
    using assms(1,5,6) by (auto simp: list_all_iff)
  then have spring: "calc_force_from_spring d1 d2 (Mat M k) = Inr Fs"
    using assms(5) calc_force_from_spring_rows [of d1 k d2 M] by (simp add: d1_def d2_def Fs_def)
  have heat: "get_column (Mat T H) (finderb t delays) = Inr Fh"
    using assms(8) by (simp add: Fh_def)
  have l: "length Fd = L" "length Fs = L" "length Fh = L"
    using assms(7) by (simp_all add: Fd_def Fs_def Fh_def)
  have sum1: "bvec (+) Fd Fs = Inr (map2 (+) Fd Fs)"
    using l by (simp add: bvec_same_length)
  have sum2: "bvec (+) (map2 (+) Fd Fs) Fh = Inr (map2 (+) (map2 (+) Fd Fs) Fh)"
    using l by (simp add: bvec_same_length)
  have quot: "bvec (/) (map2 (+) (map2 (+) Fd Fs) Fh) masses
                = Inr (map2 (/) (map2 (+) (map2 (+) Fd Fs) Fh) masses)"
    using l assms(4) by (simp add: bvec_same_length)
  have acc: "map2 (/) (map2 (+) (map2 (+) Fd Fs) Fh) masses
               = map (\<lambda>i. (Fd ! i + Fs ! i + H ! i ! finderb t delays) / masses ! i) [0..<L]"
    using l assms(4,7) by (intro nth_equalityI) (simp_all add: Fh_def)
  have "ode_func t X delays (Mat T H) damping (Mat M k) masses L pbar
          = Inr (v @ map (\<lambda>i. (Fd ! i + Fs ! i + H ! i ! finderb t delays) / masses ! i) [0..<L],
                 map_option (ode_progress t) pbar)"
    unfolding ode_func_def Let_def x_def [symmetric] v_def [symmetric] a1 a2 damp spring heat
    by (simp add: bind_error_def sum1 sum2 quot acc assign_slice_same lv)
  then show ?thesis
    using damp spring by (auto simp: v_def d1_def d2_def)
qed

theorem C1_ode_func_derivative_witness:
  "ode_func 5 [0, 1, 4, 2, 3, 5] [0, 4, 8] (Mat 3 [[1, 2, 3], [4, 5, 6], [7, 8, 9]])
       [1, 1, 2] (Mat 2 [[1, 1], [2, 1], [9, 9]]) [1, 2, 4] 3 None
     = Inr ([2, 3, 5, 6, 12, 33 / 4], None)"
  using C1_ode_func_derivative [where L = 3 and X = "[0, 1, 4, 2, 3, 5]"
      and damping = "[1, 1, 2]" and masses = "[1, 2, 4]" and k = "[[1, 1], [2, 1], [9, 9]]"
      and M = 2 and H = "[[1, 2, 3], [4, 5, 6], [7, 8, 9]]" and T = 3 and t = 5
      and delays = "[0, 4, 8]" and pbar = None]
  by (simp add: force_defs calc_force_from_damping_def np_diff_def finderb_def upt_rec
      eval_nat_numeral)

section \<open>Properties of the strain map\<close>

lemma divide_by_tiled:
  assumes "\<forall>r\<in>set rows. length r = c" and "length v = c"
  shows "barr (/) (Mat c rows) (tile_rows v (length rows))
           = Inr (Mat c (map (\<lambda>row. map (\<lambda>i. row ! i / v ! i) [0..<c]) rows))"
proof -
  have "bmat (/) (c, rows) (c, replicate (length rows) v)
          = Inr (c, map2 (map2 (/)) rows (replicate (length rows) v))"
    using assms by (intro bmat_same) simp_all
  moreover have "map2 (map2 (/)) rows (replicate (length rows) v)
                   = map (\<lambda>row. map (\<lambda>i. row ! i / v ! i) [0..<c]) rows"
    using assms by (intro nth_equalityI) (auto intro!: nth_equalityI)
  ultimately show ?thesis
    using assms(2) by (simp add: tile_rows_def bind_error_def)
qed

text \<open>
  C5. With \<^verbatim>\<open>only_heat\<close> set, temperature maps that pass the check, sticks of shape
  \<open>[T, L]\<close> and \<open>L\<close> thicknesses, \<^verbatim>\<open>calc_strain_map\<close> returns the sticks divided
  elementwise by the thickness of their layer, of shape \<open>[T, L]\<close>, and velocities that are
  zero throughout. The result is the same for every solver: the solver is not called.
\<close>

theorem C5_only_heat_strain:
  assumes "only_heat P"
    and "check_temp_maps P temp_map delta_temp_map delays = Inr (temp_map', delta_temp_map')"
    and "calc_sticks_from_temp_map P temp_map' delta_temp_map' = Inr (Mat L sticks, sub)"
    and "list_all (\<lambda>r. length r = L) sticks"
    and "length (thickness (S P)) = L"
  shows "calc_strain_map solve_ivp P delays temp_map delta_temp_map st
           = (Inr (Mat L (map (\<lambda>row. map (\<lambda>i. row ! i / thickness (S P) ! i) [0..<L]) sticks),
                   sub,
                   Mat L (map (\<lambda>row. replicate L 0) sticks)),
              disp_message Elapsed_time (disp_message Calculating_expansion st))"
proof -
  have "barr (/) (Mat L sticks) (tile_rows (thickness (S P)) (length sticks))
          = Inr (Mat L (map (\<lambda>row. map (\<lambda>i. row ! i / thickness (S P) ! i) [0..<L]) sticks))"
    using assms(4,5) by (intro divide_by_tiled) (simp_all add: list_all_iff)
  moreover have "map (map (\<lambda>_. 0::real)) (map (\<lambda>row. map (\<lambda>i. row ! i / thickness (S P) ! i) [0..<L]) sticks)
                   = map (\<lambda>row. replicate L 0) sticks"
    by (simp add: comp_def map_replicate_const)
  ultimately show ?thesis
    using assms(1,2,3) by (simp add: calc_strain_map_def Let_def)
qed

theorem C5_only_heat_strain_witness:
  "calc_strain_map failing_ivp (demo_phonon True) [0, 1]
       (Vec []) (Mat 2 [[1, 2], [3, 8]]) no_files
     = (Inr (Mat 2 [[1 / 2, 1 / 2], [3 / 2, 2]], [], Mat 2 [[0, 0], [0, 0]]),
        \<lparr>files = Map.empty, messages = [Calculating_expansion, Elapsed_time]\<rparr>)"
  using C5_only_heat_strain [of "demo_phonon True" "Vec []" "Mat 2 [[1, 2], [3, 8]]" "[0, 1]"
      "Vec []" "Mat 2 [[1, 2], [3, 8]]" 2 "[[1, 2], [3, 8]]" "[]"
      failing_ivp no_files]
  by (simp add: demo_phonon_def two_layers_def no_files_def disp_message_def upt_rec
      eval_nat_numeral)

lemma strain_from_solution_rows:
  assumes "1 \<le> L" and "length y = 2 * L" and "length thicknesses = L"
  shows "strain_from_solution L thicknesses (Mat T y)
           = Inr (Mat (L - 1)
                    (map (\<lambda>t. map (\<lambda>i. (y ! (i + 1) ! t - y ! i ! t) / thicknesses ! i) [0..<L - 1])
                       [0..<T]),
                  Mat L (map (\<lambda>t. map (\<lambda>i. y ! (L + i) ! t) [0..<L]) [0..<T]))"
proof -
  define temp where "temp = map (np_diff 1) (transpose_rows T (take L y))"
  define d where "d = map (\<lambda>t. map (\<lambda>i. y ! (i + 1) ! t - y ! i ! t) [0..<L - 1]) [0..<T]"
  have lt: "length (take L y) = L" and ld: "length (drop L y) = L"
    using assms(2) by simp_all
  have "temp = d"
    unfolding temp_def d_def transpose_rows_def np_diff_def
    using lt by (auto intro!: nth_equalityI simp: length_diff1 nth_diff1)
  moreover have "length d = T" "\<forall>r\<in>set d. length r = L - 1"
    by (auto simp: d_def)
  moreover have "length (butlast thicknesses) = L - 1"
    using assms(3) by simp
  ultimately have "barr (/) (Mat (L - 1) temp) (tile_rows (butlast thicknesses) T)
          = Inr (Mat (L - 1) (map (\<lambda>row. map (\<lambda>i. row ! i / butlast thicknesses ! i) [0..<L - 1]) d))"
    using divide_by_tiled [of d "L - 1" "butlast thicknesses"] by simp
  moreover have "map (\<lambda>row. map (\<lambda>i. row ! i / butlast thicknesses ! i) [0..<L - 1]) d
                   = map (\<lambda>t. map (\<lambda>i. (y ! (i + 1) ! t - y ! i ! t) / thicknesses ! i) [0..<L - 1])
                       [0..<T]"
    using assms(3) by (auto simp: d_def nth_butlast)
  moreover have "size0 (Mat (L - 1) temp) = T"
    by (simp add: temp_def transpose_rows_def)
  ultimately have B: "barr (/) (Mat (L - 1) temp)
                        (tile_rows (butlast thicknesses) (size0 (Mat (L - 1) temp)))
          = Inr (Mat (L - 1)
                   (map (\<lambda>t. map (\<lambda>i. (y ! (i + 1) ! t - y ! i ! t) / thicknesses ! i) [0..<L - 1])
                      [0..<T]))"
    by simp
  have V: "transpose_rows T (drop L y) = map (\<lambda>t. map (\<lambda>i. y ! (L + i) ! t) [0..<L]) [0..<T]"
    unfolding transpose_rows_def using ld assms(2)
    by (auto intro!: nth_equalityI)
  show ?thesis
    apply (simp only: strain_from_solution_def rows_2d.simps bind_error_def sum.case prod.case
        Let_def lt ld)
    apply (simp only: temp_def [symmetric] B V sum.case)
    done
qed

text \<open>
  C6. Without \<^verbatim>\<open>only_heat\<close>, for \<open>L \<ge> 1\<close> layers with \<open>L\<close> thicknesses, the solver is
  started on the zero vector of length \<open>2L\<close>. When it returns \<^verbatim>\<open>sol.y\<close> with \<open>2L\<close> rows
  and \<open>T\<close> columns, the strain map has shape \<open>[T, L - 1]\<close> with entry \<open>[t, i]\<close> the
  difference of the displacements of layers \<open>i + 1\<close> and \<open>i\<close> at delay \<open>t\<close> divided by the
  thickness of layer \<open>i\<close>, and the velocities have shape \<open>[T, L]\<close> with entry \<open>[t, i]\<close>
  the row \<open>L + i\<close> of \<^verbatim>\<open>sol.y\<close> at \<open>t\<close>.
\<close>

theorem C6_dynamic_strain:
  assumes "\<not> only_heat P"
    and "check_temp_maps P temp_map delta_temp_map delays = Inr (temp_map', delta_temp_map')"
    and "calc_sticks_from_temp_map P temp_map' delta_temp_map' = Inr (sticks, sub)"
    and "calc_force_from_heat sticks (spring_const (S P)) = Inr force_from_heat"
    and "delays \<noteq> []"
    and "L = number_of_layers (S P)" and "1 \<le> L" and "length (thickness (S P)) = L"
    and "solve_ivp
           (\<lambda>t X. ode_func t X delays force_from_heat (phonon_damping (S P)) (spring_const (S P))
                     (mass_unit_area (S P)) L)
           (hd delays, last delays) (replicate (2 * L) 0)
           (start_progress (progress_bar P) delays (hd delays)) delays (ode_options P)
         = Inr (Mat T y)"
    and "length y = 2 * L"
  shows "calc_strain_map solve_ivp P delays temp_map delta_temp_map st
           = (Inr (Mat (L - 1)
                     (map (\<lambda>t. map (\<lambda>i. (y ! (i + 1) ! t - y ! i ! t) / thickness (S P) ! i)
                                   [0..<L - 1])
                        [0..<T]),
                   sub,
                   Mat L (map (\<lambda>t. map (\<lambda>i. y ! (L + i) ! t) [0..<L]) [0..<T])),
              disp_message Elapsed_time
                (disp_message Calculating_dynamics (disp_message Calculating_expansion st)))"
proof -
  have "first delays = Inr (hd delays)"
    using assms(5) by (cases delays) (simp_all add: first_def)
  then have "coherent_dynamics solve_ivp P delays sticks (replicate (2 * L) 0)
               = strain_from_solution L (thickness (S P)) (Mat T y)"
    using assms(4,6,9) by (simp add: coherent_dynamics_def Let_def bind_error_def)
  also have "\<dots> = Inr (Mat (L - 1)
                    (map (\<lambda>t. map (\<lambda>i. (y ! (i + 1) ! t - y ! i ! t) / thickness (S P) ! i) [0..<L - 1])
                       [0..<T]),
                  Mat L (map (\<lambda>t. map (\<lambda>i. y ! (L + i) ! t) [0..<L]) [0..<T]))"
    using assms(7,10,8) by (rule strain_from_solution_rows)
  finally show ?thesis
    using assms(1,2,3,6) by (simp add: calc_strain_map_def Let_def)
qed

lemmas run_defs = ode_func_def calc_force_from_damping_def np_diff_def diff1_def finderb_def
  euler_ivp_def transpose_rows_def start_progress_def

theorem C6_dynamic_strain_witness:
  "calc_strain_map euler_ivp (demo_phonon False) [0, 1, 2] (Vec [])
       (Mat 2 [[1, 2], [3, 8], [3, 8]]) no_files
     = (Inr (Mat 1 [[0], [0], [3 / 4]], [], Mat 2 [[0, 0], [- 1, 1 / 2], [- 4, 2]]),
        \<lparr>files = Map.empty,
         messages = [Calculating_expansion, Calculating_dynamics, Elapsed_time]\<rparr>)"
proof -
  let ?P = "demo_phonon False"
  have heat: "calc_force_from_heat (Mat 2 [[1, 2], [3, 8], [3, 8]]) (spring_const (S ?P))
                = Inr (Mat 3 [[- 1, - 3, - 3], [1, 3, 3]])"
    by (simp add: demo_phonon_def two_layers_def force_defs upt_rec)
  have sol: "euler_ivp
           (\<lambda>t X. ode_func t X [0, 1, 2] (Mat 3 [[- 1, - 3, - 3], [1, 3, 3]])
                     (phonon_damping (S ?P)) (spring_const (S ?P)) (mass_unit_area (S ?P)) 2)
           (hd [0, 1, 2], last [0, 1, 2]) (replicate (2 * 2) 0)
           (start_progress (progress_bar ?P) [0, 1, 2] (hd [0, 1, 2])) [0, 1, 2] (ode_options ?P)
         = Inr (Mat 3 [[0, 0, - 1], [0, 0, 1 / 2], [0, - 1, - 4], [0, 1 / 2, 2]])"
    by (simp add: demo_phonon_def two_layers_def force_defs run_defs upt_rec eval_nat_numeral)
  show ?thesis
    using C6_dynamic_strain [where P = ?P and temp_map = "Vec []"
        and delta_temp_map = "Mat 2 [[1, 2], [3, 8], [3, 8]]" and delays = "[0, 1, 2]"
        and temp_map' = "Vec []" and delta_temp_map' = "Mat 2 [[1, 2], [3, 8], [3, 8]]"
        and sticks = "Mat 2 [[1, 2], [3, 8], [3, 8]]" and sub = "[]"
        and force_from_heat = "Mat 3 [[- 1, - 3, - 3], [1, 3, 3]]" and L = 2
        and solve_ivp = euler_ivp and T = 3
        and y = "[[0, 0, - 1], [0, 0, 1 / 2], [0, - 1, - 4], [0, 1 / 2, 2]]"
        and st = no_files, OF _ _ _ heat _ _ _ _ sol]
    by (simp add: demo_phonon_def two_layers_def no_files_def disp_message_def upt_rec
        eval_nat_numeral)
qed

section \<open>Properties of the cache\<close>

lemma get_strain_map_stored:
  assumes "\<not> force_recalc P"
    and "get_strain_map solve_ivp P delays temp_map delta_temp_map st = (Inr strain_map, st')"
  shows "files st' (cache_dir P @ ''/'' @ strain_map_filename P delays temp_map delta_temp_map)
           = Some (Readable strain_map)"
proof (cases "path_exists st (cache_dir P @ ''/'' @ strain_map_filename P delays temp_map delta_temp_map)")
  case True
  then show ?thesis
    using assms
    by (auto simp: get_strain_map_def Let_def np_load_def disp_message_def
        split: sum.splits option.splits cache_file.splits)
next
  case False
  then show ?thesis
    using assms
    by (auto simp: get_strain_map_def Let_def save_def split: sum.splits prod.splits)
qed

text \<open>
  C7. With \<^verbatim>\<open>force_recalc\<close> false, when a call of \<^verbatim>\<open>get_strain_map\<close> has returned a strain
  map, a second call on the same object with the same delays and temperature maps returns
  the same strain map, read from the cache file, and leaves the files as they are. It does
  so with any solver in the place of \<^verbatim>\<open>solve_ivp\<close>: the integrator is not called again.
  What the first call stores is the \<^verbatim>\<open>save\<close> of the specification.
\<close>

theorem C7_second_call_cached:
  assumes "\<not> force_recalc P"
    and "get_strain_map solve_ivp P delays temp_map delta_temp_map st = (Inr strain_map, st')"
  shows "get_strain_map solve_ivp' P delays temp_map delta_temp_map st'
           = (Inr strain_map,
              disp_message (Loaded (strain_map_filename P delays temp_map delta_temp_map)) st')"
  using assms(1) get_strain_map_stored [OF assms]
  by (simp add: get_strain_map_def Let_def path_exists_def np_load_def)

lemma demo_first_call:
  "get_strain_map euler_ivp (demo_phonon False) [0, 1, 2] (Vec [])
       (Mat 2 [[1, 2], [3, 8], [3, 8]]) no_files
     = (Inr (Mat 1 [[0], [0], [3 / 4]]),
        \<lparr>files = [''cache/strain_map_num_0.npy'' \<mapsto> Readable (Mat 1 [[0], [0], [3 / 4]])],
         messages = [Calculating_expansion, Calculating_dynamics, Elapsed_time]\<rparr>)"
  by (simp add: get_strain_map_def strain_map_filename_def path_exists_def calc_strain_map_def
      coherent_dynamics_def strain_from_solution_def first_def tile_rows_def save_def
      demo_phonon_def two_layers_def no_files_def disp_message_def
      force_defs run_defs upt_rec eval_nat_numeral)

theorem C7_second_call_cached_witness:
  "get_strain_map failing_ivp (demo_phonon False) [0, 1, 2] (Vec [])
       (Mat 2 [[1, 2], [3, 8], [3, 8]])
       \<lparr>files = [''cache/strain_map_num_0.npy'' \<mapsto> Readable (Mat 1 [[0], [0], [3 / 4]])],
        messages = [Calculating_expansion, Calculating_dynamics, Elapsed_time]\<rparr>
     = (Inr (Mat 1 [[0], [0], [3 / 4]]),
        \<lparr>files = [''cache/strain_map_num_0.npy'' \<mapsto> Readable (Mat 1 [[0], [0], [3 / 4]])],
         messages = [Calculating_expansion, Calculating_dynamics, Elapsed_time,
                     Loaded ''strain_map_num_0.npy'']\<rparr>)"
  using C7_second_call_cached [OF _ demo_first_call, of failing_ivp]
  by (simp add: demo_phonon_def disp_message_def strain_map_filename_def)

text \<open>
  C8, as stated. The cache file exists and cannot be read; a recomputation would return a
  strain map. \<^verbatim>\<open>get_strain_map\<close> raises the error of \<^verbatim>\<open>np.load\<close> and shows no message:
  the call of \<^verbatim>\<open>np.load\<close> is not inside any \<^verbatim>\<open>try\<close>.
\<close>

theorem C8_unreadable_cache_counterexample:
  "get_strain_map euler_ivp (demo_phonon True) [0, 1] (Vec []) (Mat 2 [[1, 2], [3, 8]])
       unreadable_cache
     = (Inl IOError, unreadable_cache)
   \<and> fst (calc_strain_map euler_ivp (demo_phonon True) [0, 1] (Vec []) (Mat 2 [[1, 2], [3, 8]])
            unreadable_cache)
     = Inr (Mat 2 [[1 / 2, 1 / 2], [3 / 2, 2]], [], Mat 2 [[0, 0], [0, 0]])"
  by (simp add: get_strain_map_def strain_map_filename_def path_exists_def np_load_def
      calc_strain_map_def tile_rows_def unreadable_cache_def demo_phonon_def two_layers_def
      disp_message_def force_defs upt_rec eval_nat_numeral)

text \<open>
  C8, amended. When the cache file exists but cannot be read and \<^verbatim>\<open>force_recalc\<close> is
  false, \<^verbatim>\<open>get_strain_map\<close> raises the error of \<^verbatim>\<open>np.load\<close> to its caller; nothing is
  computed, shown or written.
\<close>

theorem C8_unreadable_cache_propagates:
  assumes "files st (cache_dir P @ ''/'' @ strain_map_filename P delays temp_map delta_temp_map)
             = Some Unreadable"
    and "\<not> force_recalc P"
  shows "get_strain_map solve_ivp P delays temp_map delta_temp_map st = (Inl IOError, st)"
  using assms by (simp add: get_strain_map_def Let_def path_exists_def np_load_def)

theorem C8_unreadable_cache_propagates_witness:
  "get_strain_map euler_ivp (demo_phonon False) [0, 1, 2] (Vec [])
       (Mat 2 [[1, 2], [3, 8], [3, 8]]) unreadable_cache
     = (Inl IOError, unreadable_cache)"
  using C8_unreadable_cache_propagates [of unreadable_cache "demo_phonon False" "[0, 1, 2]"
      "Vec []" "Mat 2 [[1, 2], [3, 8], [3, 8]]" euler_ivp]
  by (simp add: unreadable_cache_def demo_phonon_def strain_map_filename_def)

end
